theory Spec2Isabelle
  imports Complex_Main "HOL-Library.Sublist" "HOL-Library.Log_Nat"
begin

section \<open>GST bill analyzer: the reconciliation core of \<^verbatim>\<open>gst_bill_analyzer_gemini.py\<close>\<close>

text \<open>
  The development embeds the four methods of \<^verbatim>\<open>GeminiGSTAnalyzer\<close> that make up the
  reconciliation engine: \<^verbatim>\<open>get_correct_gst_rate\<close>, \<^verbatim>\<open>validate_extraction\<close>,
  \<^verbatim>\<open>calculate_correct_gst\<close> and steps 3 to 8 of \<^verbatim>\<open>analyze_bill\<close>.

  Conventions of the embedding:
  \<^item> A Python \<^verbatim>\<open>float\<close> is the rational number it denotes (\<^typ>\<open>rat\<close>); infinities, NaN
    and overflow to infinity are outside the model. \<^verbatim>\<open>round(x, 2)\<close> rounds the exact value of
    its argument to two decimals, ties to even, as CPython does.
  \<^item> In \<^verbatim>\<open>calculate_correct_gst\<close> the arithmetic is binary64: the result of every operation
    is rounded to the nearest double, ties to even (\<open>float_of\<close>), in the order in which the
    source performs the operations. The comparisons and differences of
    \<^verbatim>\<open>validate_extraction\<close> and of the report in \<^verbatim>\<open>analyze_bill\<close> are taken on the exact
    values.
  \<^item> A raised exception is \<open>Inl\<close> of a result of type \<open>py_error + 'a\<close>. Every division
    whose divisor is not a literal goes through \<open>py_div\<close>, which raises on a zero divisor as
    Python's float division does.
  \<^item> A Python \<^verbatim>\<open>str\<close> is a \<^typ>\<open>string\<close> of 8-bit characters; \<^verbatim>\<open>str.lower\<close> maps the letters
    A to Z.
  \<^item> The f-string messages are values of a datatype: one constructor for each message text,
    carrying the numbers and names the text interpolates.
\<close>

subsection \<open>Numbers, errors and strings\<close>

datatype py_error = ZeroDivisionError

definition py_div :: "rat \<Rightarrow> rat \<Rightarrow> py_error + rat" where
  "py_div a b = (if b = 0 then Inl ZeroDivisionError else Inr (a / b))"

definition round_half_even :: "rat \<Rightarrow> int" where
  "round_half_even y =
     (let f = \<lfloor>y\<rfloor>; d = y - of_int f
      in if d < 1 / 2 then f else if 1 / 2 < d then f + 1
         else if even f then f else f + 1)"

text \<open>\<^verbatim>\<open>round(x, 2)\<close>\<close>

definition round2 :: "rat \<Rightarrow> rat" where
  "round2 x = of_int (round_half_even (x * 100)) / 100"

text \<open>The exponent of a nonzero number: the \<open>e\<close> with \<open>2 ^ e \<le> |x| < 2 ^ (e + 1)\<close>.\<close>

definition float_exponent :: "rat \<Rightarrow> int" where
  "float_exponent x =
     (let (a, b) = quotient_of \<bar>x\<bar>; d = bitlen a - bitlen b
      in if 2 powi d \<le> \<bar>x\<bar> then d else d - 1)"

text \<open>
  The double nearest to a number, ties to the even significand: 53 significant bits, and
  multiples of \<open>2 ^ - 1074\<close> in the subnormal range.
\<close>

definition float_of :: "rat \<Rightarrow> rat" where
  "float_of x =
     (if x = 0 then 0
      else let q = max (float_exponent x - 52) (- 1074)
           in of_int (round_half_even (x / 2 powi q)) * 2 powi q)"

text \<open>Float division \<^verbatim>\<open>a / b\<close>: raises on a zero divisor, otherwise rounds the quotient.\<close>

definition float_div :: "rat \<Rightarrow> rat \<Rightarrow> py_error + rat" where
  "float_div a b = (if b = 0 then Inl ZeroDivisionError else Inr (float_of (a / b)))"

text \<open>
  \<^verbatim>\<open>sum(...)\<close> over floats: starts from 0 and adds the values from left to right, rounding
  each partial sum (the summation of CPython 3.11).
\<close>

definition py_sum :: "rat list \<Rightarrow> rat" where
  "py_sum xs = foldl (\<lambda>s x. float_of (s + x)) 0 xs"

definition lower_char :: "char \<Rightarrow> char" where
  "lower_char c =
     (let n = (of_char c :: nat) in if 65 \<le> n \<and> n \<le> 90 then char_of (n + 32) else c)"

text \<open>\<^verbatim>\<open>s.lower()\<close>\<close>

definition lower :: "string \<Rightarrow> string" where
  "lower s = map lower_char s"

text \<open>\<^verbatim>\<open>keyword in item_lower\<close>: the keyword occurs as a contiguous run of the text.\<close>

fun py_in :: "string \<Rightarrow> string \<Rightarrow> bool" where
  "py_in k [] = (k = [])"
| "py_in k (c # cs) = (prefix k (c # cs) \<or> py_in k cs)"

subsection \<open>The rate catalog: table \<^verbatim>\<open>gst_items\<close>\<close>

text \<open>
  The columns the query reads. \<^verbatim>\<open>item_name\<close> and \<^verbatim>\<open>gst_rate\<close> are declared
  \<^verbatim>\<open>NOT NULL\<close>; \<^verbatim>\<open>item_category\<close> and \<^verbatim>\<open>hsn_code\<close> may be NULL.
\<close>

record gst_item =
  row_item_name :: string
  row_item_category :: "string option"
  row_gst_rate :: rat
  row_hsn_code :: "string option"

text \<open>
  The catalog as \<^verbatim>\<open>get_correct_gst_rate\<close> meets it: either connecting or querying raises
  (\<open>Unavailable\<close>), or the table holds rows, listed in scan order.
\<close>

datatype catalog = Unavailable | Rows "gst_item list"

text \<open>
  SQLite's \<^verbatim>\<open>text LIKE pattern\<close>: \<^verbatim>\<open>%\<close> stands for any run of characters, \<^verbatim>\<open>_\<close> for any one
  character, every other character for itself, letters compared without case. The first
  argument is the pattern.
\<close>

fun sql_like :: "string \<Rightarrow> string \<Rightarrow> bool" where
  "sql_like [] [] = True"
| "sql_like [] (t # ts) = False"
| "sql_like (p # ps) [] = (p = CHR ''%'' \<and> sql_like ps [])"
| "sql_like (p # ps) (t # ts) =
     (if p = CHR ''%'' then sql_like ps (t # ts) \<or> sql_like (p # ps) ts
      else (p = CHR ''_'' \<or> lower_char p = lower_char t) \<and> sql_like ps ts)"

text \<open>
  \<^verbatim>\<open>WHERE LOWER(item_name) LIKE ? OR LOWER(item_category) LIKE ?\<close>, both parameters bound to
  the pattern; a NULL category matches nothing.
\<close>

definition row_matches :: "string \<Rightarrow> gst_item \<Rightarrow> bool" where
  "row_matches pat r =
     (sql_like pat (lower (row_item_name r)) \<or>
      (case row_item_category r of None \<Rightarrow> False | Some c \<Rightarrow> sql_like pat (lower c)))"

text \<open>\<^verbatim>\<open>LIMIT 1\<close> and \<^verbatim>\<open>cursor.fetchone()\<close>: the first matching row, if any.\<close>

fun fetchone :: "string \<Rightarrow> gst_item list \<Rightarrow> gst_item option" where
  "fetchone pat [] = None"
| "fetchone pat (r # rs) = (if row_matches pat r then Some r else fetchone pat rs)"

subsection \<open>\<^verbatim>\<open>get_correct_gst_rate\<close>\<close>

definition dry_fruits_keywords :: "string list" where
  "dry_fruits_keywords =
     [''cashew'', ''almond'', ''walnut'', ''dates'', ''raisin'', ''pistachio'',
      ''badam'', ''kaju'', ''pista'', ''kishmish'', ''anjeer'', ''fig'',
      ''mixed nuts'', ''mixed bites'', ''dry fruit'']"

definition electronics_keywords :: "string list" where
  "electronics_keywords =
     [''mobile'', ''phone'', ''laptop'', ''computer'', ''charger'', ''earphone'',
      ''headphone'', ''tv'', ''television'', ''ac'', ''refrigerator'', ''washing machine'']"

definition medical_keywords :: "string list" where
  "medical_keywords =
     [''medicine'', ''tablet'', ''syrup'', ''injection'', ''capsule'',
      ''test'', ''pathology'', ''xray'', ''scan'']"

definition food_items_0_percent :: "string list" where
  "food_items_0_percent =
     [''parotta'', ''chapati'', ''roti'', ''bread'', ''milk'', ''curd'',
      ''vegetables'', ''fruits'', ''eggs'']"

definition food_items_5_percent :: "string list" where
  "food_items_5_percent =
     [''dosa'', ''idli'', ''vada'', ''rice'', ''dal'', ''sambar'',
      ''biryani'', ''curry'', ''meal'', ''coffee'', ''tea'']"

text \<open>
  One keyword loop: \<^verbatim>\<open>for keyword in keywords: if keyword in item_lower: return ...\<close>.
  The loop returns at the first keyword found; the result says whether it returned.
\<close>

fun keyword_loop :: "string list \<Rightarrow> string \<Rightarrow> bool" where
  "keyword_loop [] item_lower = False"
| "keyword_loop (keyword # rest) item_lower =
     (if py_in keyword item_lower then True else keyword_loop rest item_lower)"

type_synonym rate_result = "rat \<times> string option \<times> string option"

text \<open>The keyword cascade and the default, lines 302 to 343.\<close>

definition keyword_fallback :: "string \<Rightarrow> rate_result" where
  "keyword_fallback item_name =
     (let item_lower = lower item_name
      in if keyword_loop dry_fruits_keywords item_lower
           then (5, Some ''08013200'', Some ''Dry fruits and nuts'')
         else if keyword_loop electronics_keywords item_lower
           then (18, None, Some ''Electronics'')
         else if keyword_loop medical_keywords item_lower
           then (12, None, Some ''Medical supplies'')
         else if keyword_loop food_items_0_percent item_lower
           then (0, None, Some ''Food items (fresh)'')
         else if keyword_loop food_items_5_percent item_lower
           then (5, None, Some ''Restaurant services'')
         else (5, None, Some ''Unknown (default 5%)''))"

text \<open>
  The whole method. The \<^verbatim>\<open>try\<close> block covers the query and the keyword cascade; its
  \<^verbatim>\<open>except Exception\<close> handler returns \<^verbatim>\<open>5.0, None, "Unknown"\<close>.
\<close>

definition get_correct_gst_rate :: "catalog \<Rightarrow> string \<Rightarrow> rate_result" where
  "get_correct_gst_rate db item_name =
     (case db of
        Unavailable \<Rightarrow> (5, None, Some ''Unknown'')
      | Rows rs \<Rightarrow>
          (case fetchone (''%'' @ lower item_name @ ''%'') rs of
             Some result \<Rightarrow> (row_gst_rate result, row_hsn_code result, row_item_category result)
           | None \<Rightarrow> keyword_fallback item_name))"

subsection \<open>The extracted record and the line items\<close>

text \<open>
  \<^verbatim>\<open>gemini_result\<close> is the dictionary parsed from the extractor's JSON. Each field of
  the record is \<^verbatim>\<open>gemini_result.get(key)\<close>: \<open>None\<close> when the key is absent, otherwise the
  value, a number for the numeric keys and text for the others.
\<close>

record item_data =
  item_get_original_name :: "string option"
  item_get_item_name :: "string option"
  item_get_quantity :: "rat option"
  item_get_unit_price :: "rat option"
  item_get_total_price :: "rat option"

record extracted_bill =
  get_store_name :: "string option"
  get_bill_number :: "string option"
  get_date :: "string option"
  get_gstin :: "string option"
  get_items :: "item_data list option"
  get_gross_amount :: "rat option"
  get_discount :: "rat option"
  get_subtotal :: "rat option"
  get_cgst_charged :: "rat option"
  get_sgst_charged :: "rat option"
  get_igst_charged :: "rat option"
  get_total_gst_charged :: "rat option"
  get_grand_total :: "rat option"

text \<open>\<^verbatim>\<open>d.get(key, default)\<close>\<close>

definition get_or :: "'a option \<Rightarrow> 'a \<Rightarrow> 'a" where
  "get_or v d = (case v of None \<Rightarrow> d | Some x \<Rightarrow> x)"

text \<open>\<^verbatim>\<open>not d.get(key)\<close> for a text field: absent, null or empty.\<close>

definition not_text :: "string option \<Rightarrow> bool" where
  "not_text v = (case v of None \<Rightarrow> True | Some s \<Rightarrow> s = [])"

record BillLineItem =
  item_name :: string
  original_name :: string
  quantity :: rat
  unit_price :: rat
  total_price :: rat
  hsn_code :: "string option"
  gst_rate :: "rat option"
  cgst :: "rat option"
  sgst :: "rat option"
  category :: "string option"

subsection \<open>\<^verbatim>\<open>validate_extraction\<close>\<close>

text \<open>The warning messages, in the order of the source, with the values they print.\<close>

datatype warning =
    ItemsSumNotGross rat rat
  | GrossMinusDiscountNotSubtotal rat rat rat
  | MinorRoundingDifference rat rat
  | SubtotalPlusGstNotGrandTotal rat rat
  | UnusualGstRate rat
  | StoreNameNotFound
  | BillNumberNotFound

text \<open>The state the checks update: \<^verbatim>\<open>warnings\<close> and \<^verbatim>\<open>confidence\<close>.\<close>

type_synonym validation = "warning list \<times> rat"

text \<open>Check 1, lines 366 to 369.\<close>

definition check_items_sum :: "rat \<Rightarrow> rat \<Rightarrow> validation \<Rightarrow> validation" where
  "check_items_sum items_total gross_amount v =
     (case v of (warnings, confidence) \<Rightarrow>
        if 1 < \<bar>items_total - gross_amount\<bar>
        then (warnings @ [ItemsSumNotGross items_total gross_amount], confidence - 15 / 100)
        else (warnings, confidence))"

text \<open>Check 2, lines 372 to 381: the \<^verbatim>\<open>if\<close> is the hard check, the \<^verbatim>\<open>elif\<close> the soft one.\<close>

definition check_discount_math :: "rat \<Rightarrow> rat \<Rightarrow> rat \<Rightarrow> validation \<Rightarrow> validation" where
  "check_discount_math gross_amount discount subtotal v =
     (case v of (warnings, confidence) \<Rightarrow>
        let expected_subtotal = gross_amount - discount;
            tolerance = (if 100 < discount then 30 else 1)
        in if tolerance < \<bar>expected_subtotal - subtotal\<bar>
           then (warnings @ [GrossMinusDiscountNotSubtotal gross_amount discount subtotal],
                 confidence - 15 / 100)
           else if 1 < \<bar>expected_subtotal - subtotal\<bar>
           then (warnings @ [MinorRoundingDifference expected_subtotal subtotal],
                 confidence - 5 / 100)
           else (warnings, confidence))"

text \<open>Check 3, lines 384 to 387.\<close>

definition check_final_math :: "rat \<Rightarrow> rat \<Rightarrow> rat \<Rightarrow> validation \<Rightarrow> validation" where
  "check_final_math subtotal total_gst grand_total v =
     (case v of (warnings, confidence) \<Rightarrow>
        let calculated_total = subtotal + total_gst
        in if 1 < \<bar>calculated_total - grand_total\<bar>
           then (warnings @ [SubtotalPlusGstNotGrandTotal calculated_total grand_total],
                 confidence - 20 / 100)
           else (warnings, confidence))"

definition valid_gst_rates :: "rat list" where
  "valid_gst_rates = [0, 5, 12, 18, 28]"

text \<open>Check 4, lines 390 to 396. The division is the one place of the method that can raise.\<close>

definition check_gst_percent :: "rat \<Rightarrow> rat \<Rightarrow> validation \<Rightarrow> py_error + validation" where
  "check_gst_percent subtotal total_gst v =
     (case v of (warnings, confidence) \<Rightarrow>
        if 0 < subtotal
        then (case py_div total_gst subtotal of
                Inl e \<Rightarrow> Inl e
              | Inr q \<Rightarrow>
                  let gst_percent = q * 100
                  in if \<not> list_ex (\<lambda>rate. \<bar>gst_percent - rate\<bar> < 1 / 2) valid_gst_rates
                     then Inr (warnings @ [UnusualGstRate gst_percent], confidence - 10 / 100)
                     else Inr (warnings, confidence))
        else Inr (warnings, confidence))"

text \<open>Check 5, lines 399 to 404.\<close>

definition check_missing_fields :: "string option \<Rightarrow> string option \<Rightarrow> validation \<Rightarrow> validation" where
  "check_missing_fields store_name bill_number v =
     (case v of (warnings, confidence) \<Rightarrow>
        let (warnings, confidence) =
              (if not_text store_name
               then (warnings @ [StoreNameNotFound], confidence - 5 / 100)
               else (warnings, confidence))
        in if not_text bill_number
           then (warnings @ [BillNumberNotFound], confidence - 5 / 100)
           else (warnings, confidence))"

text \<open>The method: returns \<^verbatim>\<open>(confidence, warnings)\<close>.\<close>

definition validate_extraction ::
  "extracted_bill \<Rightarrow> BillLineItem list \<Rightarrow> py_error + (rat \<times> warning list)" where
  "validate_extraction gemini_result items =
     (let gross_amount = get_or (get_gross_amount gemini_result) 0;
          discount = get_or (get_discount gemini_result) 0;
          subtotal = get_or (get_subtotal gemini_result) 0;
          total_gst = get_or (get_total_gst_charged gemini_result) 0;
          grand_total = get_or (get_grand_total gemini_result) 0;
          items_total = sum_list (map total_price items);
          v = check_items_sum items_total gross_amount ([], 1);
          v = check_discount_math gross_amount discount subtotal v;
          v = check_final_math subtotal total_gst grand_total v
      in case check_gst_percent subtotal total_gst v of
           Inl e \<Rightarrow> Inl e
         | Inr v \<Rightarrow>
             (case check_missing_fields (get_store_name gemini_result)
                     (get_bill_number gemini_result) v of
                (warnings, confidence) \<Rightarrow> Inr (max 0 (min 1 confidence), warnings)))"

subsection \<open>\<^verbatim>\<open>calculate_correct_gst\<close>\<close>

text \<open>
  The loop of lines 429 to 433; the third argument is \<^verbatim>\<open>weighted_gst_rate\<close> so far. An item
  whose \<^verbatim>\<open>gst_rate\<close> is \<^verbatim>\<open>None\<close> is skipped. The division, the product and the addition are
  float operations.
\<close>

fun weighted_gst_rate_loop :: "BillLineItem list \<Rightarrow> rat \<Rightarrow> rat \<Rightarrow> py_error + rat" where
  "weighted_gst_rate_loop [] total_item_amount weighted_gst_rate = Inr weighted_gst_rate"
| "weighted_gst_rate_loop (item # rest) total_item_amount weighted_gst_rate =
     (case gst_rate item of
        None \<Rightarrow> weighted_gst_rate_loop rest total_item_amount weighted_gst_rate
      | Some rate \<Rightarrow>
          (case float_div (total_price item) total_item_amount of
             Inl e \<Rightarrow> Inl e
           | Inr weight \<Rightarrow>
               weighted_gst_rate_loop rest total_item_amount
                 (float_of (weighted_gst_rate + float_of (rate * weight)))))"

text \<open>
  The method, lines 423 to 442. \<^verbatim>\<open>round(x, 2)\<close> of a float returns the double nearest to the
  two-decimal value.
\<close>

definition calculate_correct_gst ::
  "BillLineItem list \<Rightarrow> rat \<Rightarrow> py_error + (rat \<times> rat \<times> rat)" where
  "calculate_correct_gst items subtotal_after_discount =
     (let total_item_amount = py_sum (map total_price items)
      in if total_item_amount = 0 then Inr (0, 0, 0)
         else (case weighted_gst_rate_loop items total_item_amount 0 of
                 Inl e \<Rightarrow> Inl e
               | Inr weighted_gst_rate \<Rightarrow>
                   let total_gst =
                         float_of (float_of (subtotal_after_discount * weighted_gst_rate) / 100);
                       cgst = float_of (total_gst / 2);
                       sgst = float_of (total_gst / 2)
                   in Inr (float_of (round2 total_gst), float_of (round2 cgst),
                           float_of (round2 sgst))))"

subsection \<open>\<^verbatim>\<open>analyze_bill\<close>, steps 3 to 8\<close>

text \<open>The lines of \<^verbatim>\<open>discrepancy_details\<close>, with the values they print.\<close>

datatype detail =
    DiscountApplied rat rat
  | BillChargedButShouldBe rat rat
  | OverchargedBy rat
  | UnderchargedBy rat
  | ShouldHaveZeroGst string

record BillAnalysisResult =
  bill_number :: "string option"
  restaurant_name :: "string option"
  date :: "string option"
  items :: "BillLineItem list"
  subtotal :: rat
  total_gst_charged :: rat
  total_cgst_charged :: rat
  total_sgst_charged :: rat
  grand_total :: rat
  calculated_total_gst :: rat
  calculated_cgst :: rat
  calculated_sgst :: rat
  calculated_grand_total :: rat
  has_discrepancy :: bool
  discrepancy_amount :: rat
  discrepancy_details :: "detail list"
  confidence_score :: rat
  warnings :: "warning list"
  gross_amount :: rat
  discount :: rat
  gstin :: "string option"

text \<open>Step 4, the body of the loop over \<^verbatim>\<open>gemini_result.get('items', [])\<close>, lines 486 to 506.\<close>

definition make_item :: "catalog \<Rightarrow> item_data \<Rightarrow> BillLineItem" where
  "make_item db item_data =
     (let name = get_or (item_get_item_name item_data) [];
          (rate, hsn, cat) = get_correct_gst_rate db name;
          price = get_or (item_get_total_price item_data) 0;
          item_gst = (price * rate) / 100
      in \<lparr>item_name = name,
          original_name = get_or (item_get_original_name item_data) name,
          quantity = get_or (item_get_quantity item_data) 1,
          unit_price = get_or (item_get_unit_price item_data) 0,
          total_price = price,
          hsn_code = hsn,
          gst_rate = Some rate,
          cgst = Some (round2 (item_gst / 2)),
          sgst = Some (round2 (item_gst / 2)),
          category = cat\<rparr>)"

text \<open>
  Step 7, lines 524 to 539: the details written when a discrepancy was found, before the
  discount line is put in front.
\<close>

definition discrepancy_lines :: "bool \<Rightarrow> rat \<Rightarrow> rat \<Rightarrow> rat \<Rightarrow> BillLineItem list \<Rightarrow> detail list" where
  "discrepancy_lines found amount bill_gst calculated_gst its =
     (if found
      then [BillChargedButShouldBe bill_gst calculated_gst,
            (if 0 < amount then OverchargedBy \<bar>amount\<bar> else UnderchargedBy \<bar>amount\<bar>)]
           @ map (\<lambda>item. ShouldHaveZeroGst (item_name item))
               (filter (\<lambda>item. gst_rate item = Some 0 \<and> 0 < bill_gst) its)
      else [])"

text \<open>
  Lines 542 and 543: \<^verbatim>\<open>discrepancy_details.insert(0, ...)\<close> under \<^verbatim>\<open>if discount > 0\<close>. The
  percentage divides by \<^verbatim>\<open>gross_amount\<close>.
\<close>

definition insert_discount_line :: "rat \<Rightarrow> rat \<Rightarrow> detail list \<Rightarrow> py_error + detail list" where
  "insert_discount_line disc gross details =
     (if 0 < disc
      then (case py_div disc gross of
              Inl e \<Rightarrow> Inl e
            | Inr q \<Rightarrow> Inr (DiscountApplied disc (q * 100) # details))
      else Inr details)"

text \<open>
  The method from step 3 on, given the dictionary that step 2 obtained from the extractor.
\<close>

definition analyze_bill :: "catalog \<Rightarrow> extracted_bill \<Rightarrow> py_error + BillAnalysisResult" where
  "analyze_bill db gemini_result =
     (let gross_amount = get_or (get_gross_amount gemini_result) 0;
          discount = get_or (get_discount gemini_result) 0;
          subtotal = get_or (get_subtotal gemini_result) 0;
          items = map (make_item db) (get_or (get_items gemini_result) [])
      in case validate_extraction gemini_result items of
           Inl e \<Rightarrow> Inl e
         | Inr (confidence_score', validation_warnings) \<Rightarrow>
        (case calculate_correct_gst items subtotal of
           Inl e \<Rightarrow> Inl e
         | Inr (calculated_gst, calculated_cgst', calculated_sgst') \<Rightarrow>
        (let calculated_total = round2 (subtotal + calculated_gst);
             bill_gst = get_or (get_total_gst_charged gemini_result) 0;
             bill_total = get_or (get_grand_total gemini_result) 0;
             discrepancy_amount = round2 (bill_gst - calculated_gst);
             has_discrepancy = (1 / 100 < \<bar>discrepancy_amount\<bar>)
         in case insert_discount_line discount gross_amount
                   (discrepancy_lines has_discrepancy discrepancy_amount bill_gst
                      calculated_gst items) of
              Inl e \<Rightarrow> Inl e
            | Inr discrepancy_details' \<Rightarrow>
                Inr \<lparr>bill_number = get_bill_number gemini_result,
                     restaurant_name = get_store_name gemini_result,
                     date = get_date gemini_result,
                     items = items,
                     subtotal = subtotal,
                     total_gst_charged = bill_gst,
                     total_cgst_charged = get_or (get_cgst_charged gemini_result) (bill_gst / 2),
                     total_sgst_charged = get_or (get_sgst_charged gemini_result) (bill_gst / 2),
                     grand_total = bill_total,
                     calculated_total_gst = calculated_gst,
                     calculated_cgst = calculated_cgst',
                     calculated_sgst = calculated_sgst',
                     calculated_grand_total = calculated_total,
                     has_discrepancy = has_discrepancy,
                     discrepancy_amount = discrepancy_amount,
                     discrepancy_details = discrepancy_details',
                     confidence_score = confidence_score',
                     warnings = validation_warnings,
                     gross_amount = gross_amount,
                     discount = discount,
                     gstin = get_gstin gemini_result\<rparr>)))"

subsection \<open>The weighted rate in the words of the specification\<close>

text \<open>
  \<open>W\<close> is the sum over the items of \<^verbatim>\<open>(item.total_price / total_item_value) * item.gst_rate\<close>,
  where \<^verbatim>\<open>total_item_value\<close> is the sum of the items' total prices, and \<open>G = S * W / 100\<close>.
  The values are floats: the sum is taken in the order of the items, starting from 0.0, and
  each quotient, product and partial sum is a double. An item that carries no rate
  contributes nothing.
\<close>

definition weighted_rate :: "BillLineItem list \<Rightarrow> rat" where
  "weighted_rate its =
     foldl (\<lambda>w item. case gst_rate item of
                        None \<Rightarrow> w
                      | Some rate \<Rightarrow>
                          float_of (w + float_of
                            (float_of (total_price item / py_sum (map total_price its)) * rate)))
       0 its"

definition weighted_total_gst :: "BillLineItem list \<Rightarrow> rat \<Rightarrow> rat" where
  "weighted_total_gst its S = float_of (float_of (S * weighted_rate its) / 100)"

subsection \<open>The penalty table in the words of the specification\<close>







subsection \<open>Sample inputs\<close>

text \<open>An extracted item that has a name and a total price and nothing else.\<close>

definition sample_item :: "string \<Rightarrow> rat \<Rightarrow> item_data" where
  "sample_item name price =
     \<lparr>item_get_original_name = None, item_get_item_name = Some name,
      item_get_quantity = None, item_get_unit_price = None,
      item_get_total_price = Some price\<rparr>"

text \<open>
  The bill of the module's own example (Saravana Bhavan: dosa, idli and parotta, 5 percent
  charged on 230) as the extractor returns it.
\<close>

definition sample_bill :: extracted_bill where
  "sample_bill =
     \<lparr>get_store_name = Some ''SARAVANA BHAVAN'',
      get_bill_number = Some ''12345'',
      get_date = Some ''16-Nov-2025'',
      get_gstin = None,
      get_items = Some [sample_item ''Masala Dosa'' 120, sample_item ''Idli'' 50,
                        sample_item ''Parotta'' 60],
      get_gross_amount = Some 230,
      get_discount = Some 0,
      get_subtotal = Some 230,
      get_cgst_charged = Some (575 / 100),
      get_sgst_charged = Some (575 / 100),
      get_igst_charged = Some 0,
      get_total_gst_charged = Some (1150 / 100),
      get_grand_total = Some (24150 / 100)\<rparr>"


text \<open>A catalog whose only row stores a rate of 150 percent.\<close>

definition malformed_catalog :: catalog where
  "malformed_catalog =
     Rows [\<lparr>row_item_name = ''Gold bar'', row_item_category = Some ''Bullion'',
            row_gst_rate = 150, row_hsn_code = Some ''7108''\<rparr>]"

text \<open>
  A well-formed catalog row for a name that holds no keyword, with a rate that no keyword
  set carries.
\<close>

definition umbrella_row :: gst_item where
  "umbrella_row =
     \<lparr>row_item_name = ''Umbrella'', row_item_category = Some ''Accessories'',
      row_gst_rate = 28, row_hsn_code = Some ''6601''\<rparr>"


text \<open>
  A record that holds one item name and a charged tax of 10 and lacks every other key.
\<close>

definition sparse_bill :: extracted_bill where
  "sparse_bill =
     \<lparr>get_store_name = None, get_bill_number = None, get_date = None, get_gstin = None,
      get_items = Some [\<lparr>item_get_original_name = None, item_get_item_name = Some ''Idli'',
                         item_get_quantity = None, item_get_unit_price = None,
                         item_get_total_price = None\<rparr>],
      get_gross_amount = None, get_discount = None, get_subtotal = None,
      get_cgst_charged = None, get_sgst_charged = None, get_igst_charged = None,
      get_total_gst_charged = Some 10, get_grand_total = None\<rparr>"



text \<open>The sample bill with 11.51 and with 11.52 charged, and with 0.01 charged on no items.\<close>

definition bill_1151 :: extracted_bill where
  "bill_1151 = sample_bill\<lparr>get_total_gst_charged := Some (1151 / 100)\<rparr>"

definition bill_1152 :: extracted_bill where
  "bill_1152 = sample_bill\<lparr>get_total_gst_charged := Some (1152 / 100)\<rparr>"

definition one_paisa_bill :: extracted_bill where
  "one_paisa_bill =
     sample_bill\<lparr>get_items := Some [], get_total_gst_charged := Some (1 / 100)\<rparr>"

text \<open>The sample bill without the keys of the two tax halves.\<close>

definition unsplit_bill :: extracted_bill where
  "unsplit_bill = sample_bill\<lparr>get_cgst_charged := None, get_sgst_charged := None\<rparr>"

section \<open>Properties\<close>

subsection \<open>Auxiliary facts\<close>

lemma py_in_sublist: "py_in k s \<longleftrightarrow> sublist k s"
  by (induction s) (auto simp: sublist_Cons_right)

lemma keyword_loop_iff: "keyword_loop kws s \<longleftrightarrow> (\<exists>k\<in>set kws. sublist k s)"
  by (induction kws) (auto simp: py_in_sublist)

text \<open>With a nonzero divisor the loop never raises and adds up the weighted rates.\<close>

lemma weighted_gst_rate_loop_foldl:
  "tot \<noteq> 0 \<Longrightarrow>
   weighted_gst_rate_loop its tot acc =
     Inr (foldl (\<lambda>w item. case gst_rate item of
                             None \<Rightarrow> w
                           | Some rate \<Rightarrow>
                               float_of (w + float_of (float_of (total_price item / tot) * rate)))
            acc its)"
  by (induction its arbitrary: acc)
     (auto simp: float_div_def mult.commute split: option.splits)

lemma calculate_correct_gst_eq:
  "calculate_correct_gst its S =
     Inr (if py_sum (map total_price its) = 0 then (0, 0, 0)
          else (float_of (round2 (weighted_total_gst its S)),
                float_of (round2 (float_of (weighted_total_gst its S / 2))),
                float_of (round2 (float_of (weighted_total_gst its S / 2)))))"
  by (simp add: calculate_correct_gst_def Let_def weighted_gst_rate_loop_foldl
        weighted_rate_def weighted_total_gst_def)

lemma calculate_correct_gst_Nil: "calculate_correct_gst [] S = Inr (0, 0, 0)"
  by (simp add: calculate_correct_gst_def py_sum_def)

lemma check_gst_percent_returns: "\<exists>v'. check_gst_percent s t v = Inr v'"
  by (cases v) (auto simp: check_gst_percent_def py_div_def Let_def)

lemma validate_extraction_returns: "\<exists>c ws. validate_extraction g its = Inr (c, ws)"
proof -
  obtain v' where
    "check_gst_percent (get_or (get_subtotal g) 0) (get_or (get_total_gst_charged g) 0)
       (check_final_math (get_or (get_subtotal g) 0) (get_or (get_total_gst_charged g) 0)
          (get_or (get_grand_total g) 0)
          (check_discount_math (get_or (get_gross_amount g) 0) (get_or (get_discount g) 0)
             (get_or (get_subtotal g) 0)
             (check_items_sum (sum_list (map total_price its))
                (get_or (get_gross_amount g) 0) ([], 1)))) = Inr v'"
    using check_gst_percent_returns by blast
  then show ?thesis
    by (cases "check_missing_fields (get_store_name g) (get_bill_number g) v'")
       (simp add: validate_extraction_def Let_def)
qed

lemma insert_discount_line_cases:
  "insert_discount_line d g ds =
     (if 0 < d \<and> g = 0 then Inl ZeroDivisionError
      else if 0 < d then Inr (DiscountApplied d (d / g * 100) # ds) else Inr ds)"
  by (simp add: insert_discount_line_def py_div_def)

text \<open>What a returned result holds, field by field.\<close>

lemma analyze_bill_cases:
  "analyze_bill db g = Inr r \<Longrightarrow>
   \<exists>c ws tg tc ts ds.
     validate_extraction g (map (make_item db) (get_or (get_items g) [])) = Inr (c, ws) \<and>
     calculate_correct_gst (map (make_item db) (get_or (get_items g) []))
       (get_or (get_subtotal g) 0) = Inr (tg, tc, ts) \<and>
     r = \<lparr>bill_number = get_bill_number g,
          restaurant_name = get_store_name g,
          date = get_date g,
          items = map (make_item db) (get_or (get_items g) []),
          subtotal = get_or (get_subtotal g) 0,
          total_gst_charged = get_or (get_total_gst_charged g) 0,
          total_cgst_charged =
            get_or (get_cgst_charged g) (get_or (get_total_gst_charged g) 0 / 2),
          total_sgst_charged =
            get_or (get_sgst_charged g) (get_or (get_total_gst_charged g) 0 / 2),
          grand_total = get_or (get_grand_total g) 0,
          calculated_total_gst = tg,
          calculated_cgst = tc,
          calculated_sgst = ts,
          calculated_grand_total = round2 (get_or (get_subtotal g) 0 + tg),
          has_discrepancy = (1 / 100 < \<bar>round2 (get_or (get_total_gst_charged g) 0 - tg)\<bar>),
          discrepancy_amount = round2 (get_or (get_total_gst_charged g) 0 - tg),
          discrepancy_details = ds,
          confidence_score = c,
          warnings = ws,
          gross_amount = get_or (get_gross_amount g) 0,
          discount = get_or (get_discount g) 0,
          gstin = get_gstin g\<rparr>"
  by (auto simp: analyze_bill_def Let_def split: sum.splits prod.splits)

text \<open>
  The analysis returns a result unless a positive discount meets a zero gross amount, and
  then it raises.
\<close>

lemma analyze_bill_returns:
  assumes "get_or (get_discount g) 0 \<le> 0 \<or> get_or (get_gross_amount g) 0 \<noteq> 0"
  shows "\<exists>r. analyze_bill db g = Inr r"
proof -
  obtain c ws where
    v: "validate_extraction g (map (make_item db) (get_or (get_items g) [])) = Inr (c, ws)"
    using validate_extraction_returns by blast
  show ?thesis
    using assms
    by (auto simp: analyze_bill_def Let_def v calculate_correct_gst_eq
          insert_discount_line_cases)
qed

lemma analyze_bill_raises:
  assumes "0 < get_or (get_discount g) 0" and "get_or (get_gross_amount g) 0 = 0"
  shows "analyze_bill db g = Inl ZeroDivisionError"
proof -
  obtain c ws where
    v: "validate_extraction g (map (make_item db) (get_or (get_items g) [])) = Inr (c, ws)"
    using validate_extraction_returns by blast
  show ?thesis
    using assms
    by (auto simp: analyze_bill_def Let_def v calculate_correct_gst_eq
          insert_discount_line_cases)
qed

text \<open>The fields of the result once the calculated tax is known.\<close>

lemma analyze_bill_result:
  assumes ok: "get_or (get_discount g) 0 \<le> 0 \<or> get_or (get_gross_amount g) 0 \<noteq> 0"
    and c: "calculate_correct_gst (map (make_item db) (get_or (get_items g) []))
              (get_or (get_subtotal g) 0) = Inr (tg, tc, ts)"
  shows "analyze_bill db g = Inr (projr (analyze_bill db g))"
    and "calculated_total_gst (projr (analyze_bill db g)) = tg"
    and "discrepancy_amount (projr (analyze_bill db g))
           = round2 (get_or (get_total_gst_charged g) 0 - tg)"
    and "calculated_grand_total (projr (analyze_bill db g))
           = round2 (get_or (get_subtotal g) 0 + tg)"
    and "grand_total (projr (analyze_bill db g)) = get_or (get_grand_total g) 0"
    and "total_cgst_charged (projr (analyze_bill db g))
           = get_or (get_cgst_charged g) (get_or (get_total_gst_charged g) 0 / 2)"
proof -
  obtain r where r: "analyze_bill db g = Inr r"
    using analyze_bill_returns [OF ok] by blast
  have p: "projr (analyze_bill db g) = r"
    by (simp add: r)
  show "analyze_bill db g = Inr (projr (analyze_bill db g))"
    by (simp add: r)
  show "calculated_total_gst (projr (analyze_bill db g)) = tg"
    and "discrepancy_amount (projr (analyze_bill db g))
           = round2 (get_or (get_total_gst_charged g) 0 - tg)"
    and "calculated_grand_total (projr (analyze_bill db g))
           = round2 (get_or (get_subtotal g) 0 + tg)"
    and "grand_total (projr (analyze_bill db g)) = get_or (get_grand_total g) 0"
    and "total_cgst_charged (projr (analyze_bill db g))
           = get_or (get_cgst_charged g) (get_or (get_total_gst_charged g) 0 / 2)"
    using analyze_bill_cases [OF r] c unfolding p by auto
qed

text \<open>The calculated tax of the sample bill, with an empty catalog and with none.\<close>

lemma calculate_sample:
  "calculate_correct_gst (map (make_item (Rows [])) (get_or (get_items sample_bill) [])) 230
     = Inr (850 / 100, 425 / 100, 425 / 100)"
  by code_simp

lemma calculate_sample_unavailable:
  "calculate_correct_gst (map (make_item Unavailable) (get_or (get_items sample_bill) [])) 230
     = Inr (1150 / 100, 575 / 100, 575 / 100)"
  by code_simp









lemma make_item_defaults:
  "(item_get_total_price d = None \<longrightarrow> total_price (make_item db d) = 0) \<and>
   (item_get_unit_price d = None \<longrightarrow> unit_price (make_item db d) = 0) \<and>
   (item_get_quantity d = None \<longrightarrow> quantity (make_item db d) = 1)"
  by (simp add: make_item_def Let_def get_or_def split: prod.splits)

lemma fetchone_in_rows: "fetchone pat rs = Some r \<Longrightarrow> r \<in> set rs"
  by (induction rs) (auto split: if_splits)

subsection \<open>The weighted tax calculation\<close>



subsection \<open>Raising on a discount with a zero gross amount\<close>

text \<open>
  Claim C2. The claim is that the analysis returns a result even when the extracted
  discount is positive and the gross amount is zero. On the sample bill with a discount of
  50 and a gross amount of 0 the analysis raises \<^verbatim>\<open>ZeroDivisionError\<close>: line 543 divides the
  discount by the gross amount under the guard \<^verbatim>\<open>discount > 0\<close> alone.
\<close>

theorem analyze_bill_discount_zero_gross:
  "analyze_bill (Rows []) (sample_bill\<lparr>get_gross_amount := Some 0, get_discount := Some 50\<rparr>)
     = Inl ZeroDivisionError"
  by (rule analyze_bill_raises) (simp_all add: get_or_def)

subsection \<open>Rate resolution\<close>

text \<open>
  Claim C3, as stated, fails: a catalog row is returned as stored. With the malformed
  catalog the name \<^verbatim>\<open>gold\<close> resolves to a rate of 150.
\<close>

theorem rate_out_of_bounds_counterexample:
  "\<not> fst (get_correct_gst_rate malformed_catalog ''gold'') \<le> 100"
  by code_simp

text \<open>
  Claim C3, amended. For every item name: when a catalog row matches, \<^verbatim>\<open>get_correct_gst_rate\<close>
  returns the stored rate, code and category of the first matching row as they are, without
  clamping; so the returned rate lies between 0 and 100 whenever every row of the catalog
  stores a rate between 0 and 100 (or the catalog cannot be read).
\<close>

theorem get_correct_gst_rate_bounds:
  "(\<forall>rs r. fetchone (''%'' @ lower name @ ''%'') rs = Some r \<longrightarrow>
       get_correct_gst_rate (Rows rs) name
         = (row_gst_rate r, row_hsn_code r, row_item_category r)) \<and>
   ((\<forall>rs. db = Rows rs \<longrightarrow> (\<forall>r\<in>set rs. 0 \<le> row_gst_rate r \<and> row_gst_rate r \<le> 100)) \<longrightarrow>
    0 \<le> fst (get_correct_gst_rate db name) \<and> fst (get_correct_gst_rate db name) \<le> 100)"
proof (intro conjI allI impI)
  fix rs r
  assume "fetchone (''%'' @ lower name @ ''%'') rs = Some r"
  then show "get_correct_gst_rate (Rows rs) name
               = (row_gst_rate r, row_hsn_code r, row_item_category r)"
    by (simp add: get_correct_gst_rate_def)
next
  assume ok: "\<forall>rs. db = Rows rs \<longrightarrow> (\<forall>r\<in>set rs. 0 \<le> row_gst_rate r \<and> row_gst_rate r \<le> 100)"
  have "0 \<le> fst (get_correct_gst_rate db name) \<and> fst (get_correct_gst_rate db name) \<le> 100"
  proof (cases db)
    case Unavailable
    then show ?thesis by (simp add: get_correct_gst_rate_def)
  next
    case (Rows rs)
    show ?thesis
    proof (cases "fetchone (''%'' @ lower name @ ''%'') rs")
      case None
      then show ?thesis
        using Rows by (simp add: get_correct_gst_rate_def keyword_fallback_def Let_def)
    next
      case (Some r)
      then have "r \<in> set rs" by (rule fetchone_in_rows)
      then show ?thesis
        using ok Rows Some by (simp add: get_correct_gst_rate_def)
    qed
  qed
  then show "0 \<le> fst (get_correct_gst_rate db name)"
    and "fst (get_correct_gst_rate db name) \<le> 100"
    by simp_all
qed

text \<open>
  The name \<^verbatim>\<open>Umbrella\<close> holds no keyword, so the keyword table would give the default of 5;
  the catalog row stores 28, and 28 with the row's code and category is what is returned.
\<close>

theorem get_correct_gst_rate_bounds_witness:
  "fetchone (''%'' @ lower ''Umbrella'' @ ''%'') [umbrella_row] = Some umbrella_row \<and>
   keyword_fallback ''Umbrella'' = (5, None, Some ''Unknown (default 5%)'') \<and>
   get_correct_gst_rate (Rows [umbrella_row]) ''Umbrella''
     = (28, Some ''6601'', Some ''Accessories'') \<and>
   0 \<le> row_gst_rate umbrella_row \<and> row_gst_rate umbrella_row \<le> 100 \<and>
   0 \<le> fst (get_correct_gst_rate (Rows [umbrella_row]) ''Umbrella'') \<and>
   fst (get_correct_gst_rate (Rows [umbrella_row]) ''Umbrella'') \<le> 100"
proof -
  have f: "fetchone (''%'' @ lower ''Umbrella'' @ ''%'') [umbrella_row] = Some umbrella_row"
    by code_simp
  have k: "keyword_fallback ''Umbrella'' = (5, None, Some ''Unknown (default 5%)'')"
    by code_simp
  have h: "\<forall>rs. Rows [umbrella_row] = Rows rs \<longrightarrow>
             (\<forall>r\<in>set rs. 0 \<le> row_gst_rate r \<and> row_gst_rate r \<le> 100)"
    by (simp add: umbrella_row_def)
  note t = get_correct_gst_rate_bounds [of "''Umbrella''" "Rows [umbrella_row]"]
  have v: "get_correct_gst_rate (Rows [umbrella_row]) ''Umbrella''
             = (row_gst_rate umbrella_row, row_hsn_code umbrella_row,
                row_item_category umbrella_row)"
    using t f by blast
  have b: "0 \<le> fst (get_correct_gst_rate (Rows [umbrella_row]) ''Umbrella'') \<and>
           fst (get_correct_gst_rate (Rows [umbrella_row]) ''Umbrella'') \<le> 100"
    using t h by blast
  show ?thesis
    using f k v b by (simp add: umbrella_row_def)
qed

text \<open>
  Claim C4, as stated, fails: when the catalog lookup raises, the name \<^verbatim>\<open>mobile\<close> does
  not resolve to the electronics rate.
\<close>

theorem catalog_failure_counterexample:
  "get_correct_gst_rate Unavailable ''mobile'' \<noteq> (18, None, Some ''Electronics'')"
  by (simp add: get_correct_gst_rate_def)

text \<open>
  Claim C4, amended. For every item name, if the catalog lookup raises,
  \<^verbatim>\<open>get_correct_gst_rate\<close> does not propagate the failure: it returns the fixed triple
  \<open>(5.0, null, 'Unknown')\<close>, whatever keywords the name contains.
\<close>

theorem catalog_failure_default:
  "get_correct_gst_rate Unavailable name = (5, None, Some ''Unknown'')"
  by (simp add: get_correct_gst_rate_def)

text \<open>
  Claim C9. For every item name that no catalog row matches, \<^verbatim>\<open>get_correct_gst_rate\<close>
  tests the keyword sets in the order dry fruits and nuts (5), electronics (18), medical
  supplies (12), fresh food (0), restaurant food (5), and returns the triple of the first set
  one of whose keywords is a substring of the lowercased name; when no keyword of any set
  is a substring it returns \<open>(5.0, null, 'Unknown (default 5%)')\<close>.
\<close>

theorem keyword_fallback_order:
  assumes "fetchone (''%'' @ lower name @ ''%'') rs = None"
  shows "get_correct_gst_rate (Rows rs) name =
     (if \<exists>k\<in>set dry_fruits_keywords. sublist k (lower name)
        then (5, Some ''08013200'', Some ''Dry fruits and nuts'')
      else if \<exists>k\<in>set electronics_keywords. sublist k (lower name)
        then (18, None, Some ''Electronics'')
      else if \<exists>k\<in>set medical_keywords. sublist k (lower name)
        then (12, None, Some ''Medical supplies'')
      else if \<exists>k\<in>set food_items_0_percent. sublist k (lower name)
        then (0, None, Some ''Food items (fresh)'')
      else if \<exists>k\<in>set food_items_5_percent. sublist k (lower name)
        then (5, None, Some ''Restaurant services'')
      else (5, None, Some ''Unknown (default 5%)''))"
  using assms
  by (simp add: get_correct_gst_rate_def keyword_fallback_def Let_def keyword_loop_iff)

text \<open>
  \<^verbatim>\<open>Cashew Curry\<close> holds a dry-fruit keyword and a restaurant-food keyword and resolves
  through the dry-fruit set; \<^verbatim>\<open>Gift box\<close> holds no keyword and gets the default.
\<close>

theorem keyword_fallback_order_witness:
  "fetchone (''%'' @ lower ''Cashew Curry'' @ ''%'') [] = None \<and>
   sublist ''cashew'' (lower ''Cashew Curry'') \<and>
   sublist ''curry'' (lower ''Cashew Curry'') \<and>
   get_correct_gst_rate (Rows []) ''Cashew Curry''
     = (5, Some ''08013200'', Some ''Dry fruits and nuts'') \<and>
   get_correct_gst_rate (Rows []) ''Gift box'' = (5, None, Some ''Unknown (default 5%)'')"
proof -
  have h: "fetchone (''%'' @ lower s @ ''%'') [] = None" for s
    by simp
  have m: "sublist ''cashew'' (lower ''Cashew Curry'') \<and>
           sublist ''curry'' (lower ''Cashew Curry'')"
    by code_simp
  have a: "(if \<exists>k\<in>set dry_fruits_keywords. sublist k (lower ''Cashew Curry'')
              then (5, Some ''08013200'', Some ''Dry fruits and nuts'')
            else if \<exists>k\<in>set electronics_keywords. sublist k (lower ''Cashew Curry'')
              then (18, None, Some ''Electronics'')
            else if \<exists>k\<in>set medical_keywords. sublist k (lower ''Cashew Curry'')
              then (12, None, Some ''Medical supplies'')
            else if \<exists>k\<in>set food_items_0_percent. sublist k (lower ''Cashew Curry'')
              then (0, None, Some ''Food items (fresh)'')
            else if \<exists>k\<in>set food_items_5_percent. sublist k (lower ''Cashew Curry'')
              then (5, None, Some ''Restaurant services'')
            else (5, None, Some ''Unknown (default 5%)''))
           = (5::rat, Some ''08013200'', Some ''Dry fruits and nuts'')"
    by code_simp
  have b: "(if \<exists>k\<in>set dry_fruits_keywords. sublist k (lower ''Gift box'')
              then (5, Some ''08013200'', Some ''Dry fruits and nuts'')
            else if \<exists>k\<in>set electronics_keywords. sublist k (lower ''Gift box'')
              then (18, None, Some ''Electronics'')
            else if \<exists>k\<in>set medical_keywords. sublist k (lower ''Gift box'')
              then (12, None, Some ''Medical supplies'')
            else if \<exists>k\<in>set food_items_0_percent. sublist k (lower ''Gift box'')
              then (0, None, Some ''Food items (fresh)'')
            else if \<exists>k\<in>set food_items_5_percent. sublist k (lower ''Gift box'')
              then (5, None, Some ''Restaurant services'')
            else (5, None, Some ''Unknown (default 5%)''))
           = (5::rat, None, Some ''Unknown (default 5%)'')"
    by code_simp
  show ?thesis
    using keyword_fallback_order [OF h, of "''Cashew Curry''"]
      keyword_fallback_order [OF h, of "''Gift box''"] h m
    by (simp only: a b)
qed

subsection \<open>The consistency validator\<close>



subsection \<open>The discrepancy report\<close>

text \<open>
  Claim C5, as stated, fails: with no items and 0.01 charged, the charged tax is not zero
  and yet no discrepancy is reported.
\<close>

theorem one_paisa_counterexample:
  "\<not> isl (analyze_bill (Rows []) one_paisa_bill) \<and>
   items (projr (analyze_bill (Rows []) one_paisa_bill)) = [] \<and>
   total_gst_charged (projr (analyze_bill (Rows []) one_paisa_bill)) \<noteq> 0 \<and>
   \<not> has_discrepancy (projr (analyze_bill (Rows []) one_paisa_bill))"
  by code_simp

text \<open>
  Claim C5, amended. For every extracted bill with an empty items list (outside the case of
  a positive discount with a zero gross amount), the analysis returns a result whose
  calculated tax triple is \<open>(0.0, 0.0, 0.0)\<close>, and \<^verbatim>\<open>has_discrepancy\<close> is determined by the
  charged total alone: it holds exactly when the charged total, rounded to two decimals,
  exceeds 0.01 in absolute value.
\<close>

theorem empty_items_discrepancy:
  assumes "get_or (get_items g) [] = []"
    and "get_or (get_discount g) 0 \<le> 0 \<or> get_or (get_gross_amount g) 0 \<noteq> 0"
  shows "\<exists>r. analyze_bill db g = Inr r \<and>
           calculated_total_gst r = 0 \<and> calculated_cgst r = 0 \<and> calculated_sgst r = 0 \<and>
           total_gst_charged r = get_or (get_total_gst_charged g) 0 \<and>
           (has_discrepancy r \<longleftrightarrow> 1 / 100 < \<bar>round2 (total_gst_charged r)\<bar>)"
proof -
  obtain r where r: "analyze_bill db g = Inr r"
    using analyze_bill_returns [OF assms(2)] by blast
  from analyze_bill_cases [OF r] assms(1) have
    "calculated_total_gst r = 0 \<and> calculated_cgst r = 0 \<and> calculated_sgst r = 0 \<and>
     total_gst_charged r = get_or (get_total_gst_charged g) 0 \<and>
     (has_discrepancy r \<longleftrightarrow> 1 / 100 < \<bar>round2 (total_gst_charged r)\<bar>)"
    by (auto simp: calculate_correct_gst_Nil)
  with r show ?thesis by blast
qed

text \<open>With no items and 0.01 charged nothing is reported; with 0.02 a discrepancy is.\<close>

theorem empty_items_discrepancy_witness:
  "get_or (get_items one_paisa_bill) [] = [] \<and>
   calculated_total_gst (projr (analyze_bill (Rows []) one_paisa_bill)) = 0 \<and>
   \<not> has_discrepancy (projr (analyze_bill (Rows []) one_paisa_bill)) \<and>
   has_discrepancy (projr (analyze_bill (Rows [])
      (one_paisa_bill\<lparr>get_total_gst_charged := Some (2 / 100)\<rparr>)))"
proof -
  have i: "get_or (get_items one_paisa_bill) [] = []"
    and i': "get_or (get_items (one_paisa_bill\<lparr>get_total_gst_charged := Some (2 / 100)\<rparr>)) []
             = []"
    by (simp_all add: one_paisa_bill_def get_or_def)
  have d: "get_or (get_discount one_paisa_bill) 0 \<le> 0 \<or>
           get_or (get_gross_amount one_paisa_bill) 0 \<noteq> 0"
    and d': "get_or (get_discount (one_paisa_bill\<lparr>get_total_gst_charged := Some (2 / 100)\<rparr>)) 0
               \<le> 0 \<or>
             get_or (get_gross_amount
                (one_paisa_bill\<lparr>get_total_gst_charged := Some (2 / 100)\<rparr>)) 0 \<noteq> 0"
    by (simp_all add: one_paisa_bill_def sample_bill_def get_or_def)
  have r: "\<bar>round2 (get_or (get_total_gst_charged one_paisa_bill) 0)\<bar> = 1 / 100"
    and r': "\<bar>round2 (get_or (get_total_gst_charged
               (one_paisa_bill\<lparr>get_total_gst_charged := Some (2 / 100)\<rparr>)) 0)\<bar> = 2 / 100"
    by code_simp+
  show ?thesis
    using empty_items_discrepancy [OF i d, of "Rows []"]
      empty_items_discrepancy [OF i' d', of "Rows []"] i r r'
    by auto
qed

text \<open>
  Claim C6. For every analysis that returns, the discrepancy amount is the charged tax minus
  the calculated tax, rounded to two decimals, and a discrepancy is reported exactly when
  the absolute amount exceeds 0.01: an amount of 0.01 reports none, an amount of 0.02
  reports one.
\<close>

theorem discrepancy_tolerance:
  assumes "analyze_bill db g = Inr r"
  shows "discrepancy_amount r = round2 (total_gst_charged r - calculated_total_gst r) \<and>
         (has_discrepancy r \<longleftrightarrow> 1 / 100 < \<bar>discrepancy_amount r\<bar>) \<and>
         (\<bar>discrepancy_amount r\<bar> = 1 / 100 \<longrightarrow> \<not> has_discrepancy r) \<and>
         (\<bar>discrepancy_amount r\<bar> = 2 / 100 \<longrightarrow> has_discrepancy r)"
  using analyze_bill_cases [OF assms] by auto

text \<open>
  With the catalog unavailable every item of the sample bill resolves to 5 percent and the
  calculated tax is 11.50: 11.51 charged is within the tolerance, 11.52 is not.
\<close>

theorem discrepancy_tolerance_witness:
  "discrepancy_amount (projr (analyze_bill Unavailable bill_1151)) = 1 / 100 \<and>
   \<not> has_discrepancy (projr (analyze_bill Unavailable bill_1151)) \<and>
   discrepancy_amount (projr (analyze_bill Unavailable bill_1152)) = 2 / 100 \<and>
   has_discrepancy (projr (analyze_bill Unavailable bill_1152))"
proof -
  have ok1: "get_or (get_discount bill_1151) 0 \<le> 0 \<or> get_or (get_gross_amount bill_1151) 0 \<noteq> 0"
    and ok2: "get_or (get_discount bill_1152) 0 \<le> 0 \<or> get_or (get_gross_amount bill_1152) 0 \<noteq> 0"
    by (simp_all add: bill_1151_def bill_1152_def sample_bill_def get_or_def)
  have c1: "calculate_correct_gst (map (make_item Unavailable) (get_or (get_items bill_1151) []))
              (get_or (get_subtotal bill_1151) 0) = Inr (1150 / 100, 575 / 100, 575 / 100)"
    and c2: "calculate_correct_gst (map (make_item Unavailable) (get_or (get_items bill_1152) []))
              (get_or (get_subtotal bill_1152) 0) = Inr (1150 / 100, 575 / 100, 575 / 100)"
    using calculate_sample_unavailable
    by (simp_all add: bill_1151_def bill_1152_def sample_bill_def get_or_def)
  note a = analyze_bill_result(1) [OF ok1 c1]
  note b = analyze_bill_result(1) [OF ok2 c2]
  have r1: "round2 (get_or (get_total_gst_charged bill_1151) 0 - 1150 / 100) = 1 / 100"
    and r2: "round2 (get_or (get_total_gst_charged bill_1152) 0 - 1150 / 100) = 2 / 100"
    by code_simp+
  have v: "discrepancy_amount (projr (analyze_bill Unavailable bill_1151)) = 1 / 100"
    using analyze_bill_result(3) [OF ok1 c1] r1 by simp
  have w: "discrepancy_amount (projr (analyze_bill Unavailable bill_1152)) = 2 / 100"
    using analyze_bill_result(3) [OF ok2 c2] r2 by simp
  show ?thesis
    using discrepancy_tolerance [OF a] discrepancy_tolerance [OF b] v w
    by simp
qed

text \<open>
  Claim C10. For every analysis that returns, the calculated grand total is the extracted
  subtotal plus the tax that \<^verbatim>\<open>calculate_correct_gst\<close> returned, rounded to two decimals; the
  grand total stated on the bill has no part in it.
\<close>

theorem calculated_grand_total_rebuilt:
  assumes "analyze_bill db g = Inr r"
  shows "calculate_correct_gst (items r) (subtotal r)
           = Inr (calculated_total_gst r, calculated_cgst r, calculated_sgst r) \<and>
         subtotal r = get_or (get_subtotal g) 0 \<and>
         calculated_grand_total r = round2 (subtotal r + calculated_total_gst r) \<and>
         (\<forall>t r'. analyze_bill db (g\<lparr>get_grand_total := t\<rparr>) = Inr r' \<longrightarrow>
                  calculated_grand_total r' = calculated_grand_total r)"
proof -
  have a: "calculate_correct_gst (items r) (subtotal r)
           = Inr (calculated_total_gst r, calculated_cgst r, calculated_sgst r) \<and>
         subtotal r = get_or (get_subtotal g) 0 \<and>
         calculated_grand_total r = round2 (subtotal r + calculated_total_gst r)"
    using analyze_bill_cases [OF assms] by auto
  have b: "calculated_grand_total r' = calculated_grand_total r"
    if "analyze_bill db (g\<lparr>get_grand_total := t\<rparr>) = Inr r'" for t r'
    using analyze_bill_cases [OF assms] analyze_bill_cases [OF that] by auto
  from a b show ?thesis by blast
qed

text \<open>
  On the sample bill the calculated grand total is 230 + 8.50 = 238.50, while the bill
  states 241.50; stating 999 instead changes nothing.
\<close>

theorem calculated_grand_total_rebuilt_witness:
  "calculated_grand_total (projr (analyze_bill (Rows []) sample_bill)) = 23850 / 100 \<and>
   grand_total (projr (analyze_bill (Rows []) sample_bill)) = 24150 / 100 \<and>
   calculated_grand_total
     (projr (analyze_bill (Rows []) (sample_bill\<lparr>get_grand_total := Some 999\<rparr>)))
     = 23850 / 100"
proof -
  have ok1: "get_or (get_discount sample_bill) 0 \<le> 0 \<or>
             get_or (get_gross_amount sample_bill) 0 \<noteq> 0"
    and ok2: "get_or (get_discount (sample_bill\<lparr>get_grand_total := Some 999\<rparr>)) 0 \<le> 0 \<or>
              get_or (get_gross_amount (sample_bill\<lparr>get_grand_total := Some 999\<rparr>)) 0 \<noteq> 0"
    by (simp_all add: sample_bill_def get_or_def)
  have c1: "calculate_correct_gst (map (make_item (Rows [])) (get_or (get_items sample_bill) []))
              (get_or (get_subtotal sample_bill) 0) = Inr (850 / 100, 425 / 100, 425 / 100)"
    and c2: "calculate_correct_gst
               (map (make_item (Rows []))
                  (get_or (get_items (sample_bill\<lparr>get_grand_total := Some 999\<rparr>)) []))
               (get_or (get_subtotal (sample_bill\<lparr>get_grand_total := Some 999\<rparr>)) 0)
             = Inr (850 / 100, 425 / 100, 425 / 100)"
    using calculate_sample by (simp_all add: sample_bill_def get_or_def)
  note a = analyze_bill_result(1) [OF ok1 c1]
  note b = analyze_bill_result(1) [OF ok2 c2]
  have v: "round2 (get_or (get_subtotal sample_bill) 0 + 850 / 100) = 23850 / 100"
    by code_simp
  have t: "calculated_total_gst (projr (analyze_bill (Rows []) sample_bill)) = 850 / 100"
    by (rule analyze_bill_result(2) [OF ok1 c1])
  have g: "grand_total (projr (analyze_bill (Rows []) sample_bill)) = 24150 / 100"
    using analyze_bill_result(5) [OF ok1 c1] by (simp add: sample_bill_def get_or_def)
  note c = calculated_grand_total_rebuilt [OF a]
  have 1: "calculated_grand_total (projr (analyze_bill (Rows []) sample_bill)) = 23850 / 100"
    using c t v by simp
  have 2: "calculated_grand_total
             (projr (analyze_bill (Rows []) (sample_bill\<lparr>get_grand_total := Some 999\<rparr>)))
           = calculated_grand_total (projr (analyze_bill (Rows []) sample_bill))"
    using c b by blast
  show ?thesis
    using 1 2 g by simp
qed

subsection \<open>Defaults for absent fields\<close>

text \<open>
  Claim C8, as stated, fails: when the keys \<^verbatim>\<open>cgst_charged\<close> and \<^verbatim>\<open>sgst_charged\<close> are absent,
  the result's charges are not 0.0 but half of the charged total.
\<close>

theorem absent_cgst_counterexample:
  "get_cgst_charged unsplit_bill = None \<and>
   \<not> isl (analyze_bill (Rows []) unsplit_bill) \<and>
   total_cgst_charged (projr (analyze_bill (Rows []) unsplit_bill)) \<noteq> 0"
proof -
  have ok: "get_or (get_discount unsplit_bill) 0 \<le> 0 \<or>
            get_or (get_gross_amount unsplit_bill) 0 \<noteq> 0"
    by (simp add: unsplit_bill_def sample_bill_def get_or_def)
  have c: "calculate_correct_gst (map (make_item (Rows [])) (get_or (get_items unsplit_bill) []))
             (get_or (get_subtotal unsplit_bill) 0) = Inr (850 / 100, 425 / 100, 425 / 100)"
    using calculate_sample by (simp add: unsplit_bill_def sample_bill_def get_or_def)
  have "isl (analyze_bill (Rows []) unsplit_bill) \<Longrightarrow> False"
    using analyze_bill_result(1) [OF ok c] by (metis sum.disc(2))
  moreover have "total_cgst_charged (projr (analyze_bill (Rows []) unsplit_bill)) = 575 / 100"
    using analyze_bill_result(6) [OF ok c]
    by (simp add: unsplit_bill_def sample_bill_def get_or_def)
  ultimately show ?thesis
    by (auto simp: unsplit_bill_def)
qed

text \<open>
  Claim C8, amended. For every extracted record (outside the case of a positive discount
  with a zero gross amount) the analysis returns a result, whichever numeric fields are
  absent. An absent gross amount, discount, subtotal, charged total or grand total is 0.0
  in the result; an absent \<^verbatim>\<open>cgst_charged\<close> or \<^verbatim>\<open>sgst_charged\<close> is half of the charged total;
  an item's absent total price and unit price are 0.0 and its absent quantity is 1.0.
\<close>

theorem absent_fields_defaults:
  assumes "get_or (get_discount g) 0 \<le> 0 \<or> get_or (get_gross_amount g) 0 \<noteq> 0"
  shows "\<exists>r. analyze_bill db g = Inr r \<and>
     (get_gross_amount g = None \<longrightarrow> gross_amount r = 0) \<and>
     (get_discount g = None \<longrightarrow> discount r = 0) \<and>
     (get_subtotal g = None \<longrightarrow> subtotal r = 0) \<and>
     (get_total_gst_charged g = None \<longrightarrow> total_gst_charged r = 0) \<and>
     (get_grand_total g = None \<longrightarrow> grand_total r = 0) \<and>
     (get_cgst_charged g = None \<longrightarrow> total_cgst_charged r = total_gst_charged r / 2) \<and>
     (get_sgst_charged g = None \<longrightarrow> total_sgst_charged r = total_gst_charged r / 2) \<and>
     items r = map (make_item db) (get_or (get_items g) []) \<and>
     (\<forall>d. (item_get_total_price d = None \<longrightarrow> total_price (make_item db d) = 0) \<and>
          (item_get_unit_price d = None \<longrightarrow> unit_price (make_item db d) = 0) \<and>
          (item_get_quantity d = None \<longrightarrow> quantity (make_item db d) = 1))"
proof -
  obtain r where r: "analyze_bill db g = Inr r"
    using analyze_bill_returns [OF assms] by blast
  from analyze_bill_cases [OF r] have f:
    "(get_gross_amount g = None \<longrightarrow> gross_amount r = 0) \<and>
     (get_discount g = None \<longrightarrow> discount r = 0) \<and>
     (get_subtotal g = None \<longrightarrow> subtotal r = 0) \<and>
     (get_total_gst_charged g = None \<longrightarrow> total_gst_charged r = 0) \<and>
     (get_grand_total g = None \<longrightarrow> grand_total r = 0) \<and>
     (get_cgst_charged g = None \<longrightarrow> total_cgst_charged r = total_gst_charged r / 2) \<and>
     (get_sgst_charged g = None \<longrightarrow> total_sgst_charged r = total_gst_charged r / 2) \<and>
     items r = map (make_item db) (get_or (get_items g) [])"
    by (auto simp: get_or_def)
  show ?thesis
    by (rule exI [of _ r]) (simp add: r f make_item_defaults)
qed

text \<open>
  The sparse record returns a result with zero amounts, the charged 10 split into 5 and 5,
  and one item of quantity 1 and price 0.
\<close>

theorem absent_fields_defaults_witness:
  "get_or (get_discount sparse_bill) 0 \<le> 0 \<and>
   gross_amount (projr (analyze_bill (Rows []) sparse_bill)) = 0 \<and>
   subtotal (projr (analyze_bill (Rows []) sparse_bill)) = 0 \<and>
   total_cgst_charged (projr (analyze_bill (Rows []) sparse_bill)) = 5 \<and>
   total_sgst_charged (projr (analyze_bill (Rows []) sparse_bill)) = 5 \<and>
   map quantity (items (projr (analyze_bill (Rows []) sparse_bill))) = [1] \<and>
   map total_price (items (projr (analyze_bill (Rows []) sparse_bill))) = [0]"
proof -
  have d: "get_or (get_discount sparse_bill) 0 \<le> 0 \<or>
           get_or (get_gross_amount sparse_bill) 0 \<noteq> 0"
    by (simp add: sparse_bill_def get_or_def)
  have n: "get_gross_amount sparse_bill = None \<and> get_subtotal sparse_bill = None \<and>
           get_cgst_charged sparse_bill = None \<and> get_sgst_charged sparse_bill = None \<and>
           get_or (get_discount sparse_bill) 0 \<le> 0"
    by (simp add: sparse_bill_def get_or_def)
  have v: "total_gst_charged (projr (analyze_bill (Rows []) sparse_bill)) = 10 \<and>
           map quantity (items (projr (analyze_bill (Rows []) sparse_bill))) = [1] \<and>
           map total_price (items (projr (analyze_bill (Rows []) sparse_bill))) = [0]"
    by code_simp
  show ?thesis
    using absent_fields_defaults [OF d, of "Rows []"] n v
    by auto
qed

end
